theory Spec2Isabelle
  imports Complex_Main
begin

section \<open>Data model\<close>

text \<open>
  The publications arrive as JSON objects, so every metadata field may be absent
  (\<open>undefined\<close>), \<open>null\<close>, or hold a value. The three cases are kept apart because the
  source treats them differently in places: \<open>x || 0\<close> maps both \<open>undefined\<close> and \<open>null\<close>
  to \<open>0\<close>, a relational comparison reads \<open>null\<close> as \<open>0\<close> and \<open>undefined\<close> as \<open>NaN\<close>,
  and a property access on either of them throws a \<open>TypeError\<close>.
  Numbers are the integers of the data model (years, citation counts, cluster ids);
  coordinates, strengths and sizes are real numbers, so the rounding of IEEE doubles is
  not part of the model.
\<close>

datatype 'a jsval = Undefined | Null | Val 'a

datatype error = TypeError

text \<open>
  \<open>id\<close> is a plain string: \<open>fetchPaperNetwork\<close> replaces a falsy id by a generated
  token before a publication reaches any component modelled here.
\<close>

record paper =
  id_p :: string
  title :: "string jsval"
  authors :: "string list jsval"
  year :: "int jsval"
  citation_count :: "int jsval"
  fields_p :: "string list jsval"
  cluster :: "int jsval"
  doi :: "string jsval"
  arxiv_id :: "string jsval"
  url :: "string jsval"
  abstract :: "string jsval"

type_synonym vec3 = "real \<times> real \<times> real"

text \<open>\<open>x || 0\<close> on a number: \<open>undefined\<close>, \<open>null\<close> and \<open>0\<close> all give \<open>0\<close>.\<close>

definition or0 :: "int jsval \<Rightarrow> int" where
  "or0 v = (case v of Val n \<Rightarrow> n | _ \<Rightarrow> 0)"

text \<open>Truthiness of a number, as tested by \<open>if (paper.year)\<close>.\<close>

definition truthy :: "int jsval \<Rightarrow> bool" where
  "truthy v = (case v of Val n \<Rightarrow> n \<noteq> 0 | _ \<Rightarrow> False)"

text \<open>
  The numeric reading of an operand of \<open>>=\<close> and \<open><=\<close>: \<open>undefined\<close> becomes \<open>NaN\<close>
  (\<open>None\<close>: every comparison with it is false) and \<open>null\<close> becomes \<open>0\<close>.
\<close>

definition toNumber :: "int jsval \<Rightarrow> int option" where
  "toNumber v = (case v of Undefined \<Rightarrow> None | Null \<Rightarrow> Some 0 | Val n \<Rightarrow> Some n)"

section \<open>Star: color, size and labels of a node\<close>

text \<open>
  What \<open>getColor\<close> can return: a color string, or a member that the object literal
  \<open>fieldColors\<close> inherits from \<open>Object.prototype\<close> (a function or an object, named here
  by its key).
\<close>

datatype color_value = Hex string | Inherited string

text \<open>The own keys of the object literal \<open>fieldColors\<close>, with their colors.\<close>

definition fieldColors_own :: "(string \<times> string) list" where
  "fieldColors_own =
     [(''Computer Science'', ''#4285F4''),
      (''Artificial Intelligence'', ''#EA4335''),
      (''Machine Learning'', ''#FBBC05''),
      (''Mathematics'', ''#34A853''),
      (''Physics'', ''#8B5CF6''),
      (''Biology'', ''#10B981''),
      (''Chemistry'', ''#F59E0B''),
      (''Medicine'', ''#EF4444''),
      (''Engineering'', ''#6366F1'')]"

text \<open>
  The keys that every object literal inherits from \<open>Object.prototype\<close>. Each of them
  reads as a function, \<open>__proto__\<close> as the prototype object: all are truthy.
\<close>

definition objectPrototype :: "string list" where
  "objectPrototype =
     [''constructor'', ''hasOwnProperty'', ''isPrototypeOf'', ''propertyIsEnumerable'',
      ''toLocaleString'', ''toString'', ''valueOf'', ''__proto__'',
      ''__defineGetter__'', ''__defineSetter__'', ''__lookupGetter__'', ''__lookupSetter__'']"

text \<open>
  The property read \<open>fieldColors[field]\<close>: an own key first, then the prototype;
  \<open>None\<close> is \<open>undefined\<close>. Every value found is truthy (the colors are non-empty
  strings), so \<open>if (fieldColors[field])\<close> holds exactly when the read finds something.
\<close>

definition fieldColors :: "string \<Rightarrow> color_value option" where
  "fieldColors field =
     (case map_of fieldColors_own field of
        Some c \<Rightarrow> Some (Hex c)
      | None \<Rightarrow> (if field \<in> set objectPrototype then Some (Inherited field) else None))"

definition clusterColors :: "string list" where
  "clusterColors =
     [''#FF6B6B'', ''#4ECDC4'', ''#FFD166'', ''#06D6A0'',
      ''#118AB2'', ''#EF476F'', ''#073B4C'', ''#7209B7'']"

text \<open>The loop \<open>for (const field of paper.fields)\<close>, returning at the first hit.\<close>

fun firstFieldColor :: "string list \<Rightarrow> color_value option" where
  "firstFieldColor [] = None"
| "firstFieldColor (field # rest) =
     (case fieldColors field of
        Some c \<Rightarrow> Some c
      | None \<Rightarrow> firstFieldColor rest)"

definition clusterIdx :: "'a paper_scheme \<Rightarrow> nat" where
  "clusterIdx paper = nat (\<bar>or0 (cluster paper)\<bar> mod int (length clusterColors))"

definition getColor :: "'a paper_scheme \<Rightarrow> color_value" where
  "getColor paper =
     (case (case fields_p paper of
              Val fs \<Rightarrow> (if length fs > 0 then firstFieldColor fs else None)
            | _ \<Rightarrow> None) of
        Some c \<Rightarrow> c
      | None \<Rightarrow> Hex (clusterColors ! clusterIdx paper))"

text \<open>
  The labels that \<open>getColor\<close> scans: those of \<open>paper.fields\<close>, none when the field is
  absent.
\<close>

definition fieldList :: "'a paper_scheme \<Rightarrow> string list" where
  "fieldList paper = (case fields_p paper of Val fs \<Rightarrow> fs | _ \<Rightarrow> [])"

text \<open>\<open>s.substring(0, n)\<close>: a \<open>TypeError\<close> when \<open>s\<close> is \<open>undefined\<close> or \<open>null\<close>.\<close>

definition substring0 :: "string jsval \<Rightarrow> nat \<Rightarrow> error + string" where
  "substring0 s n = (case s of Val t \<Rightarrow> Inr (take n t) | _ \<Rightarrow> Inl TypeError)"

definition label :: "string jsval \<Rightarrow> nat \<Rightarrow> error + string" where
  "label s n = (case substring0 s n of Inl e \<Rightarrow> Inl e | Inr t \<Rightarrow> Inr (t @ ''...''))"

record star_view =
  meshPosition :: vec3
  color :: color_value
  size :: real
  scale :: real
  halo :: bool
  centralLabel :: "string option"
  hoverLabel :: "string option"

text \<open>
  One render of \<open>Star\<close>. \<open>hovered\<close> is the component's own state. The two labels are
  built in the order of the JSX: the central one (20 characters of the title), then the
  hover one (15 characters, only when the node is not selected).
\<close>

definition Star :: "'a paper_scheme \<Rightarrow> vec3 \<Rightarrow> bool \<Rightarrow> bool \<Rightarrow> bool \<Rightarrow> error + star_view" where
  "Star paper position isSelected isCentral hovered =
     (let col = getColor paper;
          sz = 0.3 + log 10 (real_of_int (or0 (citation_count paper) + 1)) * 0.2;
          sc = (if isSelected then 2 else (if hovered then 1.5 else 1))
      in case (if isCentral then map_sum (\<lambda>e. e) Some (label (title paper) 20) else Inr None) of
           Inl e \<Rightarrow> Inl e
         | Inr cl \<Rightarrow>
             (case (if hovered \<and> \<not> isSelected
                    then map_sum (\<lambda>e. e) Some (label (title paper) 15) else Inr None) of
                Inl e \<Rightarrow> Inl e
              | Inr hl \<Rightarrow>
                  Inr \<lparr> meshPosition = position, color = col, size = sz, scale = sc,
                        halo = isSelected, centralLabel = cl, hoverLabel = hl \<rparr>))"

section \<open>ConnectionLine\<close>

text \<open>
  \<open>THREE.Color\<close> is a library class: a color is its three channels, \<open>new Color(hex)\<close>
  reads them from the bytes of the number and \<open>lerp\<close> moves every channel towards the
  other color by the factor \<open>alpha\<close>. A change of color space that the library may
  apply to the channels is left out; nothing below depends on the channel values
  beyond the two anchors being different colors.
\<close>

type_synonym rgb = "real \<times> real \<times> real"

definition Color :: "nat \<Rightarrow> rgb" where
  "Color hex = (real ((hex div 65536) mod 256) / 255,
                real ((hex div 256) mod 256) / 255,
                real (hex mod 256) / 255)"

definition lerp :: "rgb \<Rightarrow> rgb \<Rightarrow> real \<Rightarrow> rgb" where
  "lerp c1 c2 alpha =
     (case (c1, c2) of ((r1, g1, b1), (r2, g2, b2)) \<Rightarrow>
        (r1 + (r2 - r1) * alpha, g1 + (g2 - g1) * alpha, b1 + (b2 - b1) * alpha))"

record connection_line =
  points :: "vec3 list"
  lineColor :: rgb
  lineWidth :: real
  opacity :: real

text \<open>
  \<open>points\<close> holds the three control points of the spline (start, raised midpoint, end);
  the sampling of the curve is the library's. The parameter \<open>strength\<close> has the default
  \<open>1\<close>, taken when no strength is passed.
\<close>

definition ConnectionLine :: "vec3 \<Rightarrow> vec3 \<Rightarrow> real option \<Rightarrow> connection_line" where
  "ConnectionLine start end_p strength_opt =
     (let strength = (case strength_opt of None \<Rightarrow> 1 | Some s \<Rightarrow> s) in
      case (start, end_p) of ((s0, s1, s2), (e0, e1, e2)) \<Rightarrow>
        \<lparr> points = [start, ((s0 + e0) / 2, (s1 + e1) / 2 + 0.5, (s2 + e2) / 2), end_p],
          lineColor = lerp (Color 0x60A5FA) (Color 0x8B5CF6) strength,
          lineWidth = max 0.3 (strength * 2),
          opacity = 0.2 + strength * 0.3 \<rparr>)"

section \<open>Galaxy: layout, central publication, rendering\<close>

record positioned_paper = paper +
  position :: vec3

record connection =
  source :: string
  target :: string
  strength :: "real jsval"

text \<open>The body of the callback of \<open>papers.map((paper, index) => ...)\<close>.\<close>

definition place :: "nat \<Rightarrow> paper \<Rightarrow> nat \<Rightarrow> positioned_paper" where
  "place total_n paper index =
     (if total_n = 1 then paper.extend paper (positioned_paper.fields (0, 0, 0))
      else
        let phi = arccos (2 * real index / real total_n - 1);
            theta = pi * (1 + sqrt 5) * real index;
            radius = 8 + real_of_int (or0 (citation_count paper)) * 0.05;
            x = radius * sin phi * cos theta;
            y = radius * sin phi * sin theta * 0.5;
            z = radius * cos phi
        in paper.extend paper (positioned_paper.fields (x, y, z)))"

definition positionedPapers :: "paper list \<Rightarrow> positioned_paper list" where
  "positionedPapers papers =
     map (\<lambda>(paper, index). place (length papers) paper index) (zip papers [0..<length papers])"

text \<open>
  The layout as the specification words it: the angles and the radius of the i-th of N
  publications, and the point they give.
\<close>

definition phi_spec :: "nat \<Rightarrow> nat \<Rightarrow> real" where
  "phi_spec i N = arccos (2 * real i / real N - 1)"

definition theta_spec :: "nat \<Rightarrow> real" where
  "theta_spec i = pi * (1 + sqrt 5) * real i"

definition r_spec :: "int \<Rightarrow> real" where
  "r_spec citationCount = 8 + real_of_int citationCount * 0.05"

definition layout_spec :: "nat \<Rightarrow> nat \<Rightarrow> int \<Rightarrow> vec3" where
  "layout_spec N i citationCount =
     (r_spec citationCount * sin (phi_spec i N) * cos (theta_spec i),
      r_spec citationCount * sin (phi_spec i N) * sin (theta_spec i) * 0.5,
      r_spec citationCount * cos (phi_spec i N))"

text \<open>
  The callback of \<open>papers.reduce\<close>:
  \<open>(prev.citation_count || 0) > (current.citation_count || 0) ? prev : current\<close>.
\<close>

definition more_cited :: "'a paper_scheme \<Rightarrow> 'a paper_scheme \<Rightarrow> 'a paper_scheme" where
  "more_cited prev current =
     (if or0 (citation_count prev) > or0 (citation_count current) then prev else current)"

text \<open>
  \<open>reduce\<close> without an initial value starts from the first element and runs over the
  rest from left to right; the guard \<open>papers.length > 0\<close> keeps it off the empty list,
  where the result is \<open>null\<close>.
\<close>

definition centralPaperId :: "'a paper_scheme list \<Rightarrow> string option" where
  "centralPaperId papers =
     (case papers of
        [] \<Rightarrow> None
      | p # ps \<Rightarrow> Some (id_p (foldl more_cited p ps)))"

text \<open>
  The resolver as the specification words it: the id of the first publication, in list
  order, whose citation count is maximal.
\<close>

definition maxCitation :: "'a paper_scheme list \<Rightarrow> int" where
  "maxCitation papers =
     (case papers of
        [] \<Rightarrow> 0
      | p # ps \<Rightarrow> foldl max (or0 (citation_count p)) (map (\<lambda>q. or0 (citation_count q)) ps))"

definition central_first_spec :: "'a paper_scheme list \<Rightarrow> string option" where
  "central_first_spec papers =
     map_option id_p (find (\<lambda>p. or0 (citation_count p) = maxCitation papers) papers)"

text \<open>Rendering a list of components stops at the first one that throws.\<close>

fun renderAll :: "('a \<Rightarrow> error + 'b) \<Rightarrow> 'a list \<Rightarrow> error + 'b list" where
  "renderAll f [] = Inr []"
| "renderAll f (x # xs) =
     (case f x of
        Inl e \<Rightarrow> Inl e
      | Inr y \<Rightarrow> (case renderAll f xs of Inl e \<Rightarrow> Inl e | Inr ys \<Rightarrow> Inr (y # ys)))"

text \<open>
  The stars of \<open>Galaxy\<close>: one \<open>Star\<close> per positioned publication, selected when its id
  is \<open>selectedPaperId\<close>, central when its id is \<open>centralPaperId\<close>. \<open>hovered\<close> gives the
  hover state of the star with a given key.
\<close>

definition renderStars ::
  "paper list \<Rightarrow> string option \<Rightarrow> (string \<Rightarrow> bool) \<Rightarrow> error + star_view list" where
  "renderStars papers selectedPaperId hovered =
     renderAll
       (\<lambda>paper. Star paper (position paper)
                  (Some (id_p paper) = selectedPaperId)
                  (Some (id_p paper) = centralPaperId papers)
                  (hovered (id_p paper)))
       (positionedPapers papers)"

text \<open>\<open>connection.strength || 1\<close>: \<open>undefined\<close>, \<open>null\<close> and \<open>0\<close> all give \<open>1\<close>.\<close>

definition or1 :: "real jsval \<Rightarrow> real" where
  "or1 v = (case v of Val s \<Rightarrow> (if s = 0 then 1 else s) | _ \<Rightarrow> 1)"

text \<open>
  The callback of \<open>connections.map\<close>: a line when both endpoints are found among the
  positioned publications, \<open>null\<close> otherwise.
\<close>

definition renderConnection :: "positioned_paper list \<Rightarrow> connection \<Rightarrow> connection_line option" where
  "renderConnection positioned c =
     (case find (\<lambda>p. id_p p = source c) positioned of
        None \<Rightarrow> None
      | Some sourcePaper \<Rightarrow>
          (case find (\<lambda>p. id_p p = target c) positioned of
             None \<Rightarrow> None
           | Some targetPaper \<Rightarrow>
               Some (ConnectionLine (position sourcePaper) (position targetPaper)
                       (Some (or1 (strength c))))))"

definition renderConnections :: "paper list \<Rightarrow> connection list \<Rightarrow> connection_line option list" where
  "renderConnections papers connections =
     map (renderConnection (positionedPapers papers)) connections"

section \<open>TimelineSlider: year statistics, histogram, filter\<close>

text \<open>
  \<open>yearStats\<close>: the least and greatest year among those above 1900, or
  \<open>(1900, currentYear)\<close> when there is none. \<open>currentYear\<close> stands for
  \<open>new Date().getFullYear()\<close>.
\<close>

definition yearStats :: "int \<Rightarrow> 'a paper_scheme list \<Rightarrow> int \<times> int" where
  "yearStats currentYear papers =
     (if length papers = 0 then (1900, currentYear)
      else
        (case filter (\<lambda>y. y > 1900) (map (\<lambda>p. or0 (year p)) papers) of
           [] \<Rightarrow> (1900, currentYear)
         | y # ys \<Rightarrow> (foldl min y ys, foldl max y ys)))"

definition bucketCount :: "int \<Rightarrow> 'a paper_scheme list \<Rightarrow> int" where
  "bucketCount currentYear papers =
     (case yearStats currentYear papers of (minYear, maxYear) \<Rightarrow> min (maxYear - minYear + 1) 20)"

text \<open>\<open>Math.floor(((paper.year - yearStats.minYear) / range) * buckets)\<close>, with \<open>range_y\<close> for the source's \<open>range\<close>.\<close>

definition bucket_of :: "int \<Rightarrow> int \<Rightarrow> int \<Rightarrow> int \<Rightarrow> int" where
  "bucket_of y minYear range_y buckets =
     \<lfloor>(real_of_int (y - minYear) / real_of_int range_y) * real_of_int buckets\<rfloor>"

text \<open>\<open>Math.max(0, Math.min(buckets - 1, bucket))\<close>.\<close>

definition safeBucket :: "int \<Rightarrow> int \<Rightarrow> int" where
  "safeBucket buckets bucket = max 0 (min (buckets - 1) bucket)"

text \<open>
  \<open>distribution[k] = (distribution[k] || 0) + 1\<close> on the object whose keys are
  \<open>0 .. length d - 1\<close>, held as the list of its values in key order (the order of
  \<open>Object.values\<close>). A key that is not there yet is added with the count 1; the only key
  for which that can happen is \<open>0\<close> on the empty object, since the index is clamped.
\<close>

definition increment :: "nat list \<Rightarrow> nat \<Rightarrow> nat list" where
  "increment d k = (if k < length d then d[k := d ! k + 1] else d @ [1])"

definition count_paper :: "int \<Rightarrow> int \<Rightarrow> int \<Rightarrow> nat list \<Rightarrow> 'a paper_scheme \<Rightarrow> nat list" where
  "count_paper minYear range_y buckets d paper =
     (case year paper of
        Val y \<Rightarrow>
          (if y \<noteq> 0
           then increment d (nat (safeBucket buckets (bucket_of y minYear range_y buckets)))
           else d)
      | _ \<Rightarrow> d)"

definition getYearDistribution :: "int \<Rightarrow> 'a paper_scheme list \<Rightarrow> nat list" where
  "getYearDistribution currentYear papers =
     (case yearStats currentYear papers of (minYear, maxYear) \<Rightarrow>
        let range_y = maxYear - minYear + 1;
            buckets = min range_y 20;
            distribution = replicate (nat buckets) 0
        in foldl (count_paper minYear range_y buckets) distribution papers)"

text \<open>
  The predicate of both filters,
  \<open>paper.year >= yearRange[0] && paper.year <= yearRange[1]\<close>.
\<close>

definition inYearRange :: "'a paper_scheme \<Rightarrow> int \<times> int \<Rightarrow> bool" where
  "inYearRange paper yearRange =
     (case toNumber (year paper) of
        None \<Rightarrow> False
      | Some y \<Rightarrow> y \<ge> fst yearRange \<and> y \<le> snd yearRange)"

definition filteredPapers :: "paper list \<Rightarrow> int \<times> int \<Rightarrow> paper list" where
  "filteredPapers papers yearRange = filter (\<lambda>paper. inYearRange paper yearRange) papers"

definition papersInRange :: "paper list \<Rightarrow> int \<times> int \<Rightarrow> nat" where
  "papersInRange papers yearRange = length (filter (\<lambda>p. inYearRange p yearRange) papers)"

section \<open>App: the state and a search\<close>

text \<open>
  The text of the search box is a JavaScript string, a sequence of UTF-16 code units.
  \<open>String.prototype.trim\<close> removes the white space and line terminator characters of
  the language from both ends: tab, line feed, vertical tab, form feed, carriage return,
  space, no-break space, the other space separators of Unicode, the line and paragraph
  separators and the byte order mark. Each is a single code unit.
\<close>

definition isSpace :: "nat \<Rightarrow> bool" where
  "isSpace u =
     (u \<in> set [0x09, 0x0A, 0x0B, 0x0C, 0x0D, 0x20, 0xA0, 0x1680,
                0x2028, 0x2029, 0x202F, 0x205F, 0x3000, 0xFEFF]
      \<or> (0x2000 \<le> u \<and> u \<le> 0x200A))"

definition trim :: "nat list \<Rightarrow> nat list" where
  "trim s = rev (dropWhile isSpace (rev (dropWhile isSpace s)))"

datatype fetch_error = ApiError

record fetch_result =
  papers_res :: "paper list"
  edges :: "connection list"
  central_paper :: "string jsval"

record app_state =
  papers :: "paper list"
  connections :: "connection list"
  selectedPaper :: "paper option"
  loading :: bool
  yearRange :: "int \<times> int"
  showExamples :: bool

text \<open>
  The state of the view: the state of \<open>App\<close>, and next to it the state that the mounted
  \<open>Star\<close> components hold, as the list of the keys (publication ids) of the stars whose
  \<open>hovered\<close> is true. A star that is mounted starts with \<open>useState(false)\<close>.
\<close>

record view = app_state +
  hoveredIds :: "string list"

definition App_init :: "int \<Rightarrow> view" where
  "App_init currentYear =
     \<lparr> papers = [], connections = [], selectedPaper = None, loading = False,
       yearRange = (1990, currentYear), showExamples = True, hoveredIds = [] \<rparr>"

text \<open>
  The keys of the stars that a render of \<open>App\<close> mounts: none while \<open>loading\<close> (the
  spinner stands in for \<open>GalaxyVisualizer\<close>) and none without publications, otherwise
  one star per publication that passes the year filter.
\<close>

definition mountedStars :: "view \<Rightarrow> string list" where
  "mountedStars st =
     (if loading st then []
      else if length (papers st) > 0
           then map id_p (filteredPapers (papers st) (yearRange st))
           else [])"

text \<open>A render: the state of a star that is not mounted any more is gone.\<close>

definition commit :: "view \<Rightarrow> view" where
  "commit st = st \<lparr> hoveredIds := filter (\<lambda>k. k \<in> set (mountedStars st)) (hoveredIds st) \<rparr>"

text \<open>\<open>centralPaper || result.papers[0]\<close>, with \<open>undefined\<close> for no publication at all.\<close>

definition pickSelected :: "fetch_result \<Rightarrow> paper option" where
  "pickSelected result =
     (case find (\<lambda>p. Val (id_p p) = central_paper result) (papers_res result) of
        Some centralPaper \<Rightarrow> Some centralPaper
      | None \<Rightarrow> (case papers_res result of [] \<Rightarrow> None | p # _ \<Rightarrow> Some p))"

text \<open>
  \<open>handleSearch\<close>, with the outcome of \<open>fetchPaperNetwork\<close> as an argument: the state
  after the handler has run to its end. A blank input returns at once. Otherwise the
  view is rendered with \<open>loading\<close> set while the fetch is awaited, and rendered again
  when the handler has stored the outcome and cleared \<open>loading\<close>.
\<close>

definition handleSearch :: "view \<Rightarrow> nat list \<Rightarrow> fetch_error + fetch_result \<Rightarrow> view" where
  "handleSearch st input fetched =
     (if trim input = [] then st
      else
        let waiting = commit (st \<lparr> loading := True, showExamples := False \<rparr>) in
        (case fetched of
           Inr result \<Rightarrow>
             commit (waiting \<lparr> papers := papers_res result, connections := edges result,
                               selectedPaper := pickSelected result, loading := False \<rparr>)
         | Inl e \<Rightarrow> commit (waiting \<lparr> loading := False \<rparr>)))"

section \<open>Concrete inputs\<close>

definition paper_a :: paper where
  "paper_a = \<lparr> id_p = ''a'', title = Val ''Alpha'', authors = Val [], year = Val 2020,
               citation_count = Val 5, fields_p = Val [], cluster = Val 0,
               doi = Undefined, arxiv_id = Undefined, url = Undefined, abstract = Undefined \<rparr>"

definition paper_b :: paper where
  "paper_b = \<lparr> id_p = ''b'', title = Val ''Beta'', authors = Val [], year = Val 2018,
               citation_count = Val 5, fields_p = Val [], cluster = Val 1,
               doi = Undefined, arxiv_id = Undefined, url = Undefined, abstract = Undefined \<rparr>"

definition paper_c :: paper where
  "paper_c = \<lparr> id_p = ''c'', title = Val ''Gamma'', authors = Val [], year = Val 2019,
               citation_count = Val 100, fields_p = Val [], cluster = Val 2,
               doi = Undefined, arxiv_id = Undefined, url = Undefined, abstract = Undefined \<rparr>"

text \<open>A publication with a year before 1900.\<close>

definition paper_old :: paper where
  "paper_old = \<lparr> id_p = ''o'', title = Val ''Old'', authors = Val [], year = Val 1850,
               citation_count = Val 2, fields_p = Val [], cluster = Val 0,
               doi = Undefined, arxiv_id = Undefined, url = Undefined, abstract = Undefined \<rparr>"

text \<open>A publication whose record has no title.\<close>

definition paper_untitled :: paper where
  "paper_untitled = \<lparr> id_p = ''u'', title = Undefined, authors = Val [], year = Val 2020,
               citation_count = Val 7, fields_p = Val [], cluster = Val 0,
               doi = Undefined, arxiv_id = Undefined, url = Undefined, abstract = Undefined \<rparr>"

text \<open>
  Publications with field labels: a known label in second place, no known label, and the
  label \<open>constructor\<close>, which is no key of the color table.
\<close>

definition paper_physics :: paper where
  "paper_physics = \<lparr> id_p = ''f'', title = Val ''Fields'', authors = Val [], year = Val 2021,
               citation_count = Val 3, fields_p = Val [''Astrology'', ''Physics'', ''Biology''],
               cluster = Val (-11),
               doi = Undefined, arxiv_id = Undefined, url = Undefined, abstract = Undefined \<rparr>"

definition paper_cluster :: paper where
  "paper_cluster = \<lparr> id_p = ''g'', title = Val ''Cluster'', authors = Val [], year = Val 2021,
               citation_count = Val 3, fields_p = Val [''Astrology''],
               cluster = Val (-11),
               doi = Undefined, arxiv_id = Undefined, url = Undefined, abstract = Undefined \<rparr>"

definition paper_constructor :: paper where
  "paper_constructor = \<lparr> id_p = ''k'', title = Val ''Keys'', authors = Val [], year = Val 2021,
               citation_count = Val 3, fields_p = Val [''constructor''],
               cluster = Val 3,
               doi = Undefined, arxiv_id = Undefined, url = Undefined, abstract = Undefined \<rparr>"

text \<open>A connection of strength 0 between \<open>a\<close> and \<open>b\<close>, and one whose target is unknown.\<close>

definition conn_zero :: connection where
  "conn_zero = \<lparr> source = ''a'', target = ''b'', strength = Val 0 \<rparr>"

definition conn_dangling :: connection where
  "conn_dangling = \<lparr> source = ''a'', target = ''zz'', strength = Val 0.5 \<rparr>"

text \<open>
  A fetched graph without a central hint; a state in which the user has moved the year
  range away from the default and the pointer is over the star of \<open>b\<close>; and the code
  units of the search text \<open>1706.03762\<close>.
\<close>

definition result_ac :: fetch_result where
  "result_ac = \<lparr> papers_res = [paper_a, paper_c], edges = [], central_paper = Undefined \<rparr>"

definition state_dragged :: view where
  "state_dragged =
     \<lparr> papers = [paper_a, paper_b], connections = [], selectedPaper = Some paper_a,
       loading = False, yearRange = (2010, 2020), showExamples = False,
       hoveredIds = [''b''] \<rparr>"

definition input_arxiv :: "nat list" where
  "input_arxiv = [0x31, 0x37, 0x30, 0x36, 0x2E, 0x30, 0x33, 0x37, 0x36, 0x32]"

section \<open>Properties of the central publication\<close>

lemma foldl_more_cited_index:
  "\<exists>i<length (p # ps).
      foldl more_cited p ps = (p # ps) ! i
    \<and> (\<forall>j<length (p # ps). or0 (citation_count ((p # ps) ! j)) \<le> or0 (citation_count ((p # ps) ! i)))
    \<and> (\<forall>j<length (p # ps). i < j \<longrightarrow>
          or0 (citation_count ((p # ps) ! j)) < or0 (citation_count ((p # ps) ! i)))"
proof (induction ps rule: rev_induct)
  case Nil
  show ?case by simp
next
  case (snoc x ps)
  let ?xs = "p # ps"
  let ?cc = "\<lambda>q. or0 (citation_count q)"
  from snoc obtain i where i: "i < length ?xs"
    and acc: "foldl more_cited p ps = ?xs ! i"
    and ub: "\<forall>j<length ?xs. ?cc (?xs ! j) \<le> ?cc (?xs ! i)"
    and after: "\<forall>j<length ?xs. i < j \<longrightarrow> ?cc (?xs ! j) < ?cc (?xs ! i)"
    by blast
  have app: "p # (ps @ [x]) = ?xs @ [x]" by simp
  have nth_old: "\<And>j. j < length ?xs \<Longrightarrow> (?xs @ [x]) ! j = ?xs ! j"
    by (simp only: nth_append if_True)
  have nth_new: "(?xs @ [x]) ! length ?xs = x"
    by (simp only: nth_append_length)
  have len: "length (?xs @ [x]) = Suc (length ?xs)" by simp
  have step: "foldl more_cited p (ps @ [x]) = more_cited (?xs ! i) x"
    using acc by simp
  show ?case
  proof (cases "?cc (?xs ! i) > ?cc x")
    case True
    then have res: "foldl more_cited p (ps @ [x]) = (?xs @ [x]) ! i"
      using step i nth_old by (simp add: more_cited_def)
    have "\<forall>j<length (?xs @ [x]). ?cc ((?xs @ [x]) ! j) \<le> ?cc ((?xs @ [x]) ! i)"
      using ub True i nth_old nth_new len by (metis less_Suc_eq less_imp_le)
    moreover have "\<forall>j<length (?xs @ [x]). i < j \<longrightarrow> ?cc ((?xs @ [x]) ! j) < ?cc ((?xs @ [x]) ! i)"
      using after True i nth_old nth_new len by (metis less_Suc_eq)
    ultimately show ?thesis
      unfolding app using res i len by (metis less_Suc_eq)
  next
    case False
    then have res: "foldl more_cited p (ps @ [x]) = (?xs @ [x]) ! length ?xs"
      using step nth_new by (simp add: more_cited_def)
    have le_i: "\<And>j. j < length ?xs \<Longrightarrow> ?cc (?xs ! j) \<le> ?cc x"
      using ub False by (meson leI order_trans)
    have "\<forall>j<length (?xs @ [x]). ?cc ((?xs @ [x]) ! j) \<le> ?cc ((?xs @ [x]) ! length ?xs)"
      using le_i nth_old nth_new len by (metis less_Suc_eq order_refl)
    moreover have "\<forall>j<length (?xs @ [x]). length ?xs < j \<longrightarrow>
        ?cc ((?xs @ [x]) ! j) < ?cc ((?xs @ [x]) ! length ?xs)"
      using len by simp
    ultimately show ?thesis
      unfolding app using res len by (metis lessI)
  qed
qed

text \<open>
  C1 (as the code has it). The central id of the empty list is \<open>null\<close>. For a non-empty
  list the resolver returns the id of a publication whose citation count (absent counted
  as 0) is at least every other publication's, and every publication listed after it has
  a strictly smaller count: among several maximal publications the last one in list order
  is returned.
\<close>

theorem centralPaperId_last_maximal:
  "centralPaperId ([] :: paper list) = None
   \<and> ((pubs :: paper list) \<noteq> [] \<longrightarrow>
       (\<exists>i<length pubs.
            centralPaperId pubs = Some (id_p (pubs ! i))
          \<and> (\<forall>j<length pubs. or0 (citation_count (pubs ! j)) \<le> or0 (citation_count (pubs ! i)))
          \<and> (\<forall>j<length pubs. i < j \<longrightarrow>
                or0 (citation_count (pubs ! j)) < or0 (citation_count (pubs ! i)))))"
proof (cases pubs)
  case Nil
  then show ?thesis by (simp add: centralPaperId_def)
next
  case (Cons p ps)
  from foldl_more_cited_index [of p ps] obtain i where
    "i < length (p # ps)" "foldl more_cited p ps = (p # ps) ! i"
    "\<forall>j<length (p # ps). or0 (citation_count ((p # ps) ! j)) \<le> or0 (citation_count ((p # ps) ! i))"
    "\<forall>j<length (p # ps). i < j \<longrightarrow>
        or0 (citation_count ((p # ps) ! j)) < or0 (citation_count ((p # ps) ! i))"
    by blast
  then have "\<exists>i<length (p # ps).
      centralPaperId (p # ps) = Some (id_p ((p # ps) ! i))
    \<and> (\<forall>j<length (p # ps). or0 (citation_count ((p # ps) ! j)) \<le> or0 (citation_count ((p # ps) ! i)))
    \<and> (\<forall>j<length (p # ps). i < j \<longrightarrow>
          or0 (citation_count ((p # ps) ! j)) < or0 (citation_count ((p # ps) ! i)))"
    unfolding centralPaperId_def list.case by metis
  then show ?thesis
    unfolding Cons by (simp add: centralPaperId_def)
qed

theorem centralPaperId_last_maximal_witness:
  "[paper_a, paper_b] \<noteq> [] \<and>
   (\<exists>i<length [paper_a, paper_b].
        centralPaperId [paper_a, paper_b] = Some (id_p ([paper_a, paper_b] ! i))
      \<and> (\<forall>j<length [paper_a, paper_b].
            or0 (citation_count ([paper_a, paper_b] ! j)) \<le> or0 (citation_count ([paper_a, paper_b] ! i)))
      \<and> (\<forall>j<length [paper_a, paper_b]. i < j \<longrightarrow>
            or0 (citation_count ([paper_a, paper_b] ! j)) < or0 (citation_count ([paper_a, paper_b] ! i))))"
  using centralPaperId_last_maximal [of "[paper_a, paper_b]"] by blast

text \<open>
  C1 as stated fails on a tie: both publications have 5 citations, the first listed
  maximal one is \<open>a\<close>, and the reduction returns \<open>b\<close>.
\<close>

theorem centralPaperId_tie_counterexample:
  "centralPaperId [paper_a, paper_b] = Some ''b''
   \<and> central_first_spec [paper_a, paper_b] = Some ''a''
   \<and> centralPaperId [paper_a, paper_b] \<noteq> central_first_spec [paper_a, paper_b]"
  by (simp add: centralPaperId_def central_first_spec_def maxCitation_def more_cited_def
      or0_def paper_a_def paper_b_def)

section \<open>Properties of the layout\<close>

lemma truncate_place: "paper.truncate (place n p i) = p"
  by (simp add: place_def Let_def paper.defs positioned_paper.defs)

lemma id_place: "id_p (place n p i) = id_p p"
  by (simp add: place_def Let_def paper.defs positioned_paper.defs)

lemma length_positionedPapers: "length (positionedPapers pubs) = length pubs"
  by (simp add: positionedPapers_def)

lemma nth_positionedPapers:
  "i < length pubs \<Longrightarrow> positionedPapers pubs ! i = place (length pubs) (pubs ! i) i"
  by (simp add: positionedPapers_def)

lemma ids_positionedPapers: "map id_p (positionedPapers pubs) = map id_p pubs"
  by (rule nth_equalityI) (simp_all add: length_positionedPapers nth_positionedPapers id_place)

text \<open>
  C10. The layout step returns a list of the length of its input, and forgetting the
  added \<open>position\<close> of every output record gives back the input list: the i-th output
  record carries every field of the i-th publication unchanged.
\<close>

theorem positionedPapers_frame:
  "length (positionedPapers pubs) = length pubs
   \<and> map paper.truncate (positionedPapers pubs) = pubs"
proof
  show "length (positionedPapers pubs) = length pubs"
    by (rule length_positionedPapers)
  show "map paper.truncate (positionedPapers pubs) = pubs"
    by (rule nth_equalityI)
      (simp_all add: length_positionedPapers nth_positionedPapers truncate_place)
qed

theorem positionedPapers_frame_witness:
  "length (positionedPapers [paper_a, paper_b, paper_c]) = 3
   \<and> map paper.truncate (positionedPapers [paper_a, paper_b, paper_c]) = [paper_a, paper_b, paper_c]"
  using positionedPapers_frame [of "[paper_a, paper_b, paper_c]"] by simp

text \<open>
  C5. The layout agrees with its reference definition: a single publication is placed at
  the origin, and of N > 1 publications the i-th is placed at the point that
  \<open>layout_spec\<close> gives for N, i and its citation count (0 when absent).
\<close>

theorem positionedPapers_layout:
  "(length pubs = 1 \<longrightarrow> map position (positionedPapers pubs) = [(0, 0, 0)])
   \<and> (1 < length pubs \<longrightarrow>
        (\<forall>i<length pubs.
           position (positionedPapers pubs ! i)
             = layout_spec (length pubs) i (or0 (citation_count (pubs ! i)))))"
proof (intro conjI impI allI)
  assume one: "length pubs = 1"
  then obtain p where "pubs = [p]" by (cases pubs) auto
  then show "map position (positionedPapers pubs) = [(0, 0, 0)]"
    by (simp add: positionedPapers_def place_def paper.defs positioned_paper.defs)
next
  fix i
  assume many: "1 < length pubs" and i: "i < length pubs"
  then have "positionedPapers pubs ! i = place (length pubs) (pubs ! i) i"
    by (simp add: nth_positionedPapers)
  moreover have "length pubs \<noteq> 1" using many by simp
  ultimately show "position (positionedPapers pubs ! i)
      = layout_spec (length pubs) i (or0 (citation_count (pubs ! i)))"
    by (simp add: place_def Let_def layout_spec_def phi_spec_def theta_spec_def r_spec_def
        paper.defs positioned_paper.defs)
qed

theorem positionedPapers_layout_witness:
  "length [paper_a] = 1 \<and> map position (positionedPapers [paper_a]) = [(0, 0, 0)]
   \<and> (1::nat) < length [paper_a, paper_b]
   \<and> position (positionedPapers [paper_a, paper_b] ! 1) = layout_spec 2 1 5"
proof -
  have "position (positionedPapers [paper_a, paper_b] ! 1)
      = layout_spec (length [paper_a, paper_b]) 1 (or0 (citation_count ([paper_a, paper_b] ! 1)))"
    using positionedPapers_layout [of "[paper_a, paper_b]"] by simp
  then have "position (positionedPapers [paper_a, paper_b] ! 1) = layout_spec 2 1 5"
    by (simp add: paper_b_def or0_def numeral_2_eq_2)
  moreover have "map position (positionedPapers [paper_a]) = [(0, 0, 0)]"
    using positionedPapers_layout [of "[paper_a]"] by simp
  ultimately show ?thesis by simp
qed

section \<open>Properties of the connections\<close>

lemma find_id_None: "x \<notin> set (map id_p ps) \<Longrightarrow> find (\<lambda>p. id_p p = x) ps = None"
  by (induction ps) auto

lemma find_id_Some: "x \<in> set (map id_p ps) \<Longrightarrow> \<exists>p. find (\<lambda>p. id_p p = x) ps = Some p"
  by (induction ps) auto

text \<open>
  C8. A connection is rendered as no line exactly when its source id or its target id is
  not the id of a publication of the current list; the result is a plain \<open>null\<close> entry
  of the rendered list, and no step of the lookup can throw.
\<close>

theorem dangling_connection_dropped:
  "(renderConnection (positionedPapers pubs) c = None)
     = (source c \<notin> set (map id_p pubs) \<or> target c \<notin> set (map id_p pubs))"
proof -
  let ?pos = "positionedPapers pubs"
  have ids: "map id_p ?pos = map id_p pubs" by (rule ids_positionedPapers)
  show ?thesis
  proof (cases "source c \<in> set (map id_p pubs)")
    case False
    then have "find (\<lambda>p. id_p p = source c) ?pos = None"
      using find_id_None [of "source c" ?pos] ids by simp
    then show ?thesis using False by (simp add: renderConnection_def)
  next
    case True
    then obtain s where s: "find (\<lambda>p. id_p p = source c) ?pos = Some s"
      using find_id_Some [of "source c" ?pos] ids by auto
    show ?thesis
    proof (cases "target c \<in> set (map id_p pubs)")
      case False
      then have "find (\<lambda>p. id_p p = target c) ?pos = None"
        using find_id_None [of "target c" ?pos] ids by simp
      then show ?thesis using False s by (simp add: renderConnection_def)
    next
      case tgt: True
      then obtain t where "find (\<lambda>p. id_p p = target c) ?pos = Some t"
        using find_id_Some [of "target c" ?pos] ids by auto
      then show ?thesis using True tgt s by (simp add: renderConnection_def)
    qed
  qed
qed

lemma find_ab:
  "find (\<lambda>p. id_p p = ''a'') (positionedPapers [paper_a, paper_b]) = Some (place 2 paper_a 0)"
  "find (\<lambda>p. id_p p = ''b'') (positionedPapers [paper_a, paper_b]) = Some (place 2 paper_b 1)"
  by (simp_all add: positionedPapers_def id_place paper_a_def paper_b_def numeral_2_eq_2)

theorem dangling_connection_dropped_witness:
  "renderConnection (positionedPapers [paper_a, paper_b]) conn_dangling = None
   \<and> renderConnection (positionedPapers [paper_a, paper_b]) conn_zero \<noteq> None"
proof -
  have ids: "map id_p [paper_a, paper_b] = [''a'', ''b'']"
    by (simp add: paper_a_def paper_b_def)
  have 1: "renderConnection (positionedPapers [paper_a, paper_b]) conn_dangling = None"
    using dangling_connection_dropped [of "[paper_a, paper_b]" conn_dangling] ids
    by (simp add: conn_dangling_def)
  have 2: "renderConnection (positionedPapers [paper_a, paper_b]) conn_zero \<noteq> None"
    using dangling_connection_dropped [of "[paper_a, paper_b]" conn_zero] ids
    by (simp add: conn_zero_def)
  from 1 2 show ?thesis by simp
qed

text \<open>
  What \<open>ConnectionLine\<close> does with the strength it is given: the color is the blend of
  the two anchors by that strength, the first anchor at 0 and the second at 1, and for a
  strength that is not negative the width is at least 0.3 and the opacity at least 0.2.
\<close>

lemma lerp_0: "lerp c1 c2 0 = c1"
  by (simp add: lerp_def split: prod.splits)

lemma lerp_1: "lerp c1 c2 1 = c2"
  by (simp add: lerp_def split: prod.splits)

lemma ConnectionLine_floors:
  "0 \<le> s \<Longrightarrow> 0.3 \<le> lineWidth (ConnectionLine a b (Some s)) \<and> 0.2 \<le> opacity (ConnectionLine a b (Some s))"
  by (auto simp: ConnectionLine_def max_def split: prod.splits)

lemma ConnectionLine_color:
  "lineColor (ConnectionLine a b (Some s)) = lerp (Color 0x60A5FA) (Color 0x8B5CF6) s"
  by (simp add: ConnectionLine_def split: prod.splits)

text \<open>
  C3 (the code at a connection of strength 0). \<open>connection.strength || 1\<close> turns the
  strength 0 into 1 before \<open>ConnectionLine\<close> sees it: the line between \<open>a\<close> and \<open>b\<close>
  gets the second anchor color, the width 2 and the opacity 0.5, where a blend by the
  connection's strength would give the first anchor color.
\<close>

theorem zero_strength_rendered_as_one:
  "or1 (strength conn_zero) = 1
   \<and> map_option lineColor (renderConnection (positionedPapers [paper_a, paper_b]) conn_zero)
       = Some (Color 0x8B5CF6)
   \<and> map_option lineWidth (renderConnection (positionedPapers [paper_a, paper_b]) conn_zero) = Some 2
   \<and> map_option opacity (renderConnection (positionedPapers [paper_a, paper_b]) conn_zero) = Some 0.5
   \<and> lerp (Color 0x60A5FA) (Color 0x8B5CF6) 0 = Color 0x60A5FA
   \<and> Color 0x8B5CF6 \<noteq> Color 0x60A5FA"
proof -
  have s: "or1 (strength conn_zero) = 1" by (simp add: or1_def conn_zero_def)
  have r: "renderConnection (positionedPapers [paper_a, paper_b]) conn_zero
      = Some (ConnectionLine (position (place 2 paper_a 0)) (position (place 2 paper_b 1)) (Some 1))"
    using s by (simp add: renderConnection_def find_ab conn_zero_def)
  have c: "Color 0x8B5CF6 \<noteq> Color 0x60A5FA" by (simp add: Color_def)
  show ?thesis
    unfolding r using s c
    by (simp add: ConnectionLine_def lerp_0 lerp_1 split: prod.splits)
qed

section \<open>Properties of the stars\<close>

lemma fieldColors_own_label:
  "f \<notin> set objectPrototype \<Longrightarrow> fieldColors f = map_option Hex (map_of fieldColors_own f)"
  by (simp add: fieldColors_def split: option.splits)

lemma firstFieldColor_None:
  "(\<forall>f\<in>set fs. fieldColors f = None) \<Longrightarrow> firstFieldColor fs = None"
  by (induction fs) auto

lemma firstFieldColor_first:
  "(\<forall>g\<in>set pre. fieldColors g = None) \<Longrightarrow> fieldColors f = Some c
     \<Longrightarrow> firstFieldColor (pre @ f # post) = Some c"
  by (induction pre) auto

lemma getColor_fallback:
  "(\<forall>f\<in>set (fieldList p). fieldColors f = None)
     \<Longrightarrow> getColor p = Hex (clusterColors ! clusterIdx p)"
  using firstFieldColor_None [of "fieldList p"]
  by (auto simp: getColor_def fieldList_def split: jsval.splits)

lemma getColor_first:
  assumes "fieldList p = pre @ f # post" and "\<forall>g\<in>set pre. fieldColors g = None"
    and "fieldColors f = Some c"
  shows "getColor p = c"
proof -
  have "firstFieldColor (fieldList p) = Some c"
    using assms firstFieldColor_first [of pre f c post] by simp
  moreover from assms(1) have "fields_p p = Val (fieldList p)" "fieldList p \<noteq> []"
    by (auto simp: fieldList_def split: jsval.splits)
  ultimately show ?thesis by (simp add: getColor_def)
qed

lemma clusterIdx_less: "clusterIdx p < length clusterColors"
  by (simp add: clusterIdx_def clusterColors_def)

lemma clusterIdx_mod8: "clusterIdx p = nat (\<bar>or0 (cluster p)\<bar> mod 8)"
  by (simp add: clusterIdx_def clusterColors_def)

text \<open>
  As long as no label of a publication is a key inherited from \<open>Object.prototype\<close>, the
  encoder does what is asked of it: without a label of the color table the color is the
  palette entry at \<open>|cluster| mod 8\<close>, and otherwise it is the color of the first label
  of the table in field order.
\<close>

lemma getColor_own_labels:
  assumes own: "\<forall>f\<in>set (fieldList p). f \<notin> set objectPrototype"
  shows "((\<forall>f\<in>set (fieldList p). map_of fieldColors_own f = None) \<longrightarrow>
            getColor p = Hex (clusterColors ! nat (\<bar>or0 (cluster p)\<bar> mod 8)))
       \<and> (fieldList p = pre @ f # post \<and> (\<forall>g\<in>set pre. map_of fieldColors_own g = None)
            \<and> map_of fieldColors_own f = Some c \<longrightarrow> getColor p = Hex c)"
proof (intro conjI impI)
  assume "\<forall>f\<in>set (fieldList p). map_of fieldColors_own f = None"
  then have "\<forall>f\<in>set (fieldList p). fieldColors f = None"
    using own by (simp add: fieldColors_own_label)
  then show "getColor p = Hex (clusterColors ! nat (\<bar>or0 (cluster p)\<bar> mod 8))"
    using getColor_fallback [of p] clusterIdx_mod8 [of p] by simp
next
  assume a: "fieldList p = pre @ f # post \<and> (\<forall>g\<in>set pre. map_of fieldColors_own g = None)
            \<and> map_of fieldColors_own f = Some c"
  then have "\<forall>g\<in>set pre. fieldColors g = None" and "fieldColors f = Some (Hex c)"
    using own by (simp_all add: fieldColors_own_label)
  then show "getColor p = Hex c"
    using a getColor_first [of p pre f post "Hex c"] by simp
qed

lemma getColor_examples:
  "getColor paper_cluster = Hex ''#06D6A0''"
  "getColor paper_physics = Hex ''#8B5CF6''"
  by (simp_all add: getColor_def fieldColors_def fieldColors_own_def objectPrototype_def
      clusterIdx_def clusterColors_def or0_def paper_cluster_def paper_physics_def
      numeral_3_eq_3)

text \<open>
  C9 (the code at the label \<open>constructor\<close>). The label is no key of the color table, so
  the publication has no recognized label, and its cluster 3 names the palette color
  \<open>#06D6A0\<close>, which a publication of cluster 3 without labels does get. The read
  \<open>fieldColors['constructor']\<close> finds the inherited member instead, and \<open>getColor\<close>
  returns it; it does so too when the recognized label \<open>Physics\<close> comes next.
\<close>

theorem getColor_inherited_label:
  "map_of fieldColors_own ''constructor'' = None
   \<and> fieldList paper_constructor = [''constructor'']
   \<and> clusterColors ! nat (\<bar>or0 (cluster paper_constructor)\<bar> mod 8) = ''#06D6A0''
   \<and> getColor paper_constructor = Inherited ''constructor''
   \<and> getColor (paper_constructor \<lparr> fields_p := Val [] \<rparr>) = Hex ''#06D6A0''
   \<and> getColor (paper_constructor \<lparr> fields_p := Val [''constructor'', ''Physics''] \<rparr>)
       = Inherited ''constructor''
   \<and> fieldColors ''Physics'' = Some (Hex ''#8B5CF6'')"
  by (simp add: getColor_def fieldList_def fieldColors_def fieldColors_own_def
      objectPrototype_def clusterIdx_def clusterColors_def or0_def
      paper_constructor_def numeral_3_eq_3)

text \<open>A star of a publication with a title renders, whatever its flags.\<close>

lemma Star_titled:
  "title p = Val t \<Longrightarrow> \<exists>v. Star p pos sel cen hov = Inr v"
  by (simp add: Star_def label_def substring0_def Let_def)

text \<open>
  C7 (the code at a publication without a title). The only publication of the list is
  the central one, it passes the default year filter, and rendering its star throws a
  \<open>TypeError\<close> at \<open>paper.title.substring(0, 20)\<close>.
\<close>

theorem untitled_central_throws:
  "centralPaperId [paper_untitled] = Some (id_p paper_untitled)
   \<and> filteredPapers [paper_untitled] (1990, 2026) = [paper_untitled]
   \<and> renderStars [paper_untitled] None (\<lambda>k. False) = Inl TypeError"
  by (simp add: centralPaperId_def filteredPapers_def inYearRange_def toNumber_def
      renderStars_def positionedPapers_def place_def Star_def label_def substring0_def
      paper_untitled_def paper.defs positioned_paper.defs Let_def)

section \<open>Properties of the year histogram and the filter\<close>

lemma foldl_min_le: "foldl min (y :: int) ys \<le> y"
proof (induction ys arbitrary: y)
  case Nil
  show ?case by simp
next
  case (Cons a ys)
  have "foldl min (min y a) ys \<le> min y a" by (rule Cons.IH)
  then show ?case by simp
qed

lemma foldl_max_ge: "(y :: int) \<le> foldl max y ys"
proof (induction ys arbitrary: y)
  case Nil
  show ?case by simp
next
  case (Cons a ys)
  have "max y a \<le> foldl max (max y a) ys" by (rule Cons.IH)
  then show ?case by simp
qed

lemma yearStats_ordered:
  "1900 \<le> cy \<Longrightarrow> fst (yearStats cy pubs) \<le> snd (yearStats cy pubs)"
proof -
  assume cy: "1900 \<le> cy"
  show ?thesis
  proof (cases "filter (\<lambda>y. y > 1900) (map (\<lambda>p. or0 (year p)) pubs)")
    case Nil
    then show ?thesis using cy by (simp add: yearStats_def)
  next
    case (Cons y ys)
    have "foldl min y ys \<le> foldl max y ys"
      using foldl_min_le [of y ys] foldl_max_ge [of y ys] by linarith
    then show ?thesis using Cons cy by (simp add: yearStats_def)
  qed
qed

lemma bucketCount_bounds:
  "1900 \<le> cy \<Longrightarrow> 1 \<le> bucketCount cy pubs \<and> bucketCount cy pubs \<le> 20"
  using yearStats_ordered [of cy pubs]
  by (cases "yearStats cy pubs") (simp add: bucketCount_def)

lemma safeBucket_bounds:
  "1 \<le> b \<Longrightarrow> 0 \<le> safeBucket b x \<and> safeBucket b x \<le> b - 1"
  by (simp add: safeBucket_def)

lemma sum_list_increment: "sum_list (increment d k) = sum_list d + 1"
proof (cases "k < length d")
  case True
  then have "d ! k \<le> sum_list d" by (simp add: member_le_sum_list)
  then show ?thesis using True by (simp add: increment_def sum_list_update)
next
  case False
  then show ?thesis by (simp add: increment_def)
qed

lemma length_increment: "k < length d \<Longrightarrow> length (increment d k) = length d"
  by (simp add: increment_def)

lemma sum_list_count_paper:
  "sum_list (count_paper mn r b d p) = sum_list d + (if truthy (year p) then 1 else 0)"
  by (simp add: count_paper_def truthy_def sum_list_increment split: jsval.splits)

lemma length_count_paper:
  "1 \<le> b \<Longrightarrow> length d = nat b \<Longrightarrow> length (count_paper mn r b d p) = length d"
proof -
  assume b: "1 \<le> b" and d: "length d = nat b"
  have "\<And>x. nat (safeBucket b x) < length d"
    using safeBucket_bounds [OF b] d b by (simp add: nat_less_iff)
  then show ?thesis
    by (simp add: count_paper_def length_increment split: jsval.splits)
qed

lemma sum_list_foldl_count:
  "sum_list (foldl (count_paper mn r b) d ps)
     = sum_list d + length (filter (\<lambda>p. truthy (year p)) ps)"
  by (induction ps arbitrary: d) (simp_all add: sum_list_count_paper)

lemma length_foldl_count:
  "1 \<le> b \<Longrightarrow> length d = nat b \<Longrightarrow> length (foldl (count_paper mn r b) d ps) = length d"
  by (induction ps arbitrary: d) (simp_all add: length_count_paper)

lemma getYearDistribution_foldl:
  "getYearDistribution cy pubs =
     foldl (count_paper (fst (yearStats cy pubs))
              (snd (yearStats cy pubs) - fst (yearStats cy pubs) + 1) (bucketCount cy pubs))
       (replicate (nat (bucketCount cy pubs)) 0) pubs"
  by (simp add: getYearDistribution_def bucketCount_def Let_def split: prod.splits)

text \<open>
  What holds of the histogram for every list: the bucket counts add up to the number of
  publications whose year is present and not 0, and when the current year is not before
  1900 the histogram has as many entries as there are buckets, at least one.
\<close>

lemma histogram_sum_and_length:
  "sum_list (getYearDistribution cy pubs) = length (filter (\<lambda>p. truthy (year p)) pubs)
   \<and> (1900 \<le> cy \<longrightarrow>
        length (getYearDistribution cy pubs) = nat (bucketCount cy pubs)
      \<and> 1 \<le> bucketCount cy pubs)"
proof (intro conjI impI)
  show "sum_list (getYearDistribution cy pubs) = length (filter (\<lambda>p. truthy (year p)) pubs)"
    by (simp add: getYearDistribution_foldl sum_list_foldl_count)
next
  assume cy: "1900 \<le> cy"
  then have b: "1 \<le> bucketCount cy pubs" using bucketCount_bounds by blast
  show "1 \<le> bucketCount cy pubs" by (rule b)
  show "length (getYearDistribution cy pubs) = nat (bucketCount cy pubs)"
    using length_foldl_count [OF b, of "replicate (nat (bucketCount cy pubs)) 0"]
    by (simp add: getYearDistribution_foldl)
qed

text \<open>
  So the counts add up to the number of publications with a year above 1900 as long as
  no publication has a year between 1 and 1900 (or a negative one).
\<close>

lemma histogram_sum_valid_years:
  assumes "\<forall>p\<in>set pubs. truthy (year p) \<longrightarrow> 1900 < or0 (year p)"
  shows "sum_list (getYearDistribution cy pubs) = length (filter (\<lambda>p. 1900 < or0 (year p)) pubs)"
proof -
  have "\<And>p. p \<in> set pubs \<Longrightarrow> truthy (year p) = (1900 < or0 (year p))"
    using assms by (auto simp: truthy_def or0_def split: jsval.splits)
  then have "filter (\<lambda>p. truthy (year p)) pubs = filter (\<lambda>p. 1900 < or0 (year p)) pubs"
    by (simp cong: filter_cong)
  then show ?thesis using histogram_sum_and_length [of cy pubs] by simp
qed

lemma yearStats_ab: "yearStats 2026 [paper_a, paper_b] = (2018, 2020)"
  by (simp add: yearStats_def paper_a_def paper_b_def or0_def)

lemma yearStats_old: "yearStats 2026 [paper_old, paper_a] = (2020, 2020)"
  by (simp add: yearStats_def paper_a_def paper_old_def or0_def)

text \<open>The years 2020 and 2018 give three buckets, with one publication in the first and one in the last.\<close>

lemma histogram_example: "getYearDistribution 2026 [paper_a, paper_b] = [1, 0, 1]"
  unfolding getYearDistribution_def yearStats_ab
  by (simp add: count_paper_def bucket_of_def safeBucket_def increment_def
      paper_a_def paper_b_def numeral_3_eq_3)

text \<open>
  C2 (the code at a year that is not above 1900). \<open>yearStats\<close> leaves the year 1850 out
  of the range, which is 2020 to 2020 with its one bucket; \<open>getYearDistribution\<close> tests
  only \<open>if (paper.year)\<close> and counts the publication of 1850 in that bucket. The counts
  add up to 2, while one publication has a year above 1900.
\<close>

theorem histogram_counts_year_1850:
  "yearStats 2026 [paper_old, paper_a] = (2020, 2020)
   \<and> getYearDistribution 2026 [paper_old, paper_a] = [2]
   \<and> sum_list (getYearDistribution 2026 [paper_old, paper_a]) = 2
   \<and> length (filter (\<lambda>p. or0 (year p) > 1900) [paper_old, paper_a]) = 1"
  unfolding getYearDistribution_def yearStats_old
  by (simp add: count_paper_def bucket_of_def safeBucket_def increment_def
      paper_a_def paper_old_def or0_def)

text \<open>
  C6. A publication with a year passes the range \<open>[lo, hi]\<close> exactly when
  \<open>lo \<le> year \<le> hi\<close>: the years \<open>lo\<close> and \<open>hi\<close> of a range pass, the years \<open>lo - 1\<close> and
  \<open>hi + 1\<close> do not. A publication whose year is absent never passes, and one whose year
  is \<open>null\<close> or 0 passes no range that starts at 1990 or later, as every range inside the
  default does. Both filters, the list of the app and the count of the slider, use this
  predicate.
\<close>

theorem filter_inclusive:
  "(year p = Val y \<longrightarrow> inYearRange p (lo, hi) = (lo \<le> y \<and> y \<le> hi))
   \<and> (lo \<le> hi \<and> (year p = Val lo \<or> year p = Val hi) \<longrightarrow> inYearRange p (lo, hi))
   \<and> (year p = Val (lo - 1) \<or> year p = Val (hi + 1) \<longrightarrow> \<not> inYearRange p (lo, hi))
   \<and> (year p = Undefined \<longrightarrow> \<not> inYearRange p (lo, hi))
   \<and> (\<not> truthy (year p) \<and> 1990 \<le> lo \<longrightarrow> \<not> inYearRange p (lo, hi))
   \<and> filteredPapers pubs (lo, hi) = filter (\<lambda>q. inYearRange q (lo, hi)) pubs
   \<and> papersInRange pubs (lo, hi) = length (filteredPapers pubs (lo, hi))"
  by (auto simp: inYearRange_def toNumber_def truthy_def filteredPapers_def papersInRange_def
      split: jsval.splits)

theorem filter_inclusive_witness:
  "inYearRange paper_b (2018, 2020) \<and> inYearRange paper_a (2018, 2020)
   \<and> \<not> inYearRange paper_b (2019, 2020) \<and> \<not> inYearRange paper_a (2018, 2019)
   \<and> \<not> inYearRange (paper_a \<lparr> year := Undefined \<rparr>) (1990, 2026)
   \<and> \<not> inYearRange (paper_a \<lparr> year := Null \<rparr>) (1990, 2026)
   \<and> filteredPapers [paper_a, paper_b] (2019, 2020) = [paper_a]
   \<and> papersInRange [paper_a, paper_b] (2019, 2020) = 1"
proof -
  have ya: "year paper_a = Val 2020" and yb: "year paper_b = Val 2018"
    by (simp_all add: paper_a_def paper_b_def)
  have 1: "inYearRange paper_b (2018, 2020)"
    using filter_inclusive [where p = paper_b and lo = 2018 and hi = 2020] yb by simp
  have 2: "inYearRange paper_a (2018, 2020)"
    using filter_inclusive [where p = paper_a and lo = 2018 and hi = 2020] ya by simp
  have 3: "\<not> inYearRange paper_b (2019, 2020)"
    using filter_inclusive [where p = paper_b and lo = 2019 and hi = 2020] yb by simp
  have 4: "\<not> inYearRange paper_a (2018, 2019)"
    using filter_inclusive [where p = paper_a and lo = 2018 and hi = 2019] ya by simp
  have 5: "\<not> inYearRange (paper_a \<lparr> year := Undefined \<rparr>) (1990, 2026)"
    using filter_inclusive [where p = "paper_a \<lparr> year := Undefined \<rparr>" and lo = 1990 and hi = 2026]
    by simp
  have 6: "\<not> inYearRange (paper_a \<lparr> year := Null \<rparr>) (1990, 2026)"
    using filter_inclusive [where p = "paper_a \<lparr> year := Null \<rparr>" and lo = 1990 and hi = 2026]
    by (simp add: truthy_def)
  have 7: "filteredPapers [paper_a, paper_b] (2019, 2020) = [paper_a]"
    using filter_inclusive [where pubs = "[paper_a, paper_b]" and lo = 2019 and hi = 2020 and p = paper_a and y = 2020]
      3 ya by simp
  have 8: "papersInRange [paper_a, paper_b] (2019, 2020) = 1"
    using filter_inclusive [where pubs = "[paper_a, paper_b]" and lo = 2019 and hi = 2020 and p = paper_a and y = 2020]
      7 by simp
  from 1 2 3 4 5 6 7 8 show ?thesis by simp
qed

section \<open>Properties of a search\<close>

lemma find_hint:
  "find (\<lambda>p. Val (id_p p) = h) ps = Some p \<Longrightarrow> p \<in> set ps \<and> Val (id_p p) = h"
  by (induction ps) (auto split: if_splits)

text \<open>
  C4 (as the code has it). After a search with a non-blank input whose fetch succeeds, the
  publications and connections are those of the new graph, no star is hovered, the year
  range is the one from before the search, and the selected publication is none when the
  new list is empty, and otherwise a publication of the new list: one whose id is the
  \<open>central_paper\<close> of the fetched graph when some publication has that id, the first
  publication of the list when none has.
\<close>

theorem handleSearch_replaces_graph:
  "trim input \<noteq> [] \<longrightarrow>
     (let st' = handleSearch st input (Inr result) in
        papers st' = papers_res result
      \<and> connections st' = edges result
      \<and> yearRange st' = yearRange st
      \<and> loading st' = False
      \<and> hoveredIds st' = []
      \<and> (papers_res result = [] \<longrightarrow> selectedPaper st' = None)
      \<and> (papers_res result \<noteq> [] \<longrightarrow>
           (\<exists>p \<in> set (papers_res result). selectedPaper st' = Some p
              \<and> ((\<exists>q \<in> set (papers_res result). Val (id_p q) = central_paper result)
                    \<longrightarrow> Val (id_p p) = central_paper result)
              \<and> (\<not> (\<exists>q \<in> set (papers_res result). Val (id_p q) = central_paper result)
                    \<longrightarrow> p = hd (papers_res result)))))"
proof (intro impI)
  assume nb: "trim input \<noteq> []"
  let ?st = "handleSearch st input (Inr result)"
  let ?ps = "papers_res result"
  have sel: "selectedPaper ?st = pickSelected result"
    and basic: "papers ?st = ?ps" "connections ?st = edges result"
      "yearRange ?st = yearRange st" "loading ?st = False" "hoveredIds ?st = []"
    using nb by (simp_all add: handleSearch_def commit_def mountedStars_def Let_def)
  have empty: "?ps = [] \<longrightarrow> selectedPaper ?st = None"
    using sel by (simp add: pickSelected_def)
  have nonempty: "?ps \<noteq> [] \<longrightarrow>
           (\<exists>p \<in> set ?ps. selectedPaper ?st = Some p
              \<and> ((\<exists>q \<in> set ?ps. Val (id_p q) = central_paper result)
                    \<longrightarrow> Val (id_p p) = central_paper result)
              \<and> (\<not> (\<exists>q \<in> set ?ps. Val (id_p q) = central_paper result)
                    \<longrightarrow> p = hd ?ps))"
  proof
    assume ne: "?ps \<noteq> []"
    show "\<exists>p \<in> set ?ps. selectedPaper ?st = Some p
              \<and> ((\<exists>q \<in> set ?ps. Val (id_p q) = central_paper result)
                    \<longrightarrow> Val (id_p p) = central_paper result)
              \<and> (\<not> (\<exists>q \<in> set ?ps. Val (id_p q) = central_paper result)
                    \<longrightarrow> p = hd ?ps)"
    proof (cases "find (\<lambda>p. Val (id_p p) = central_paper result) ?ps")
      case None
      then have "\<not> (\<exists>q \<in> set ?ps. Val (id_p q) = central_paper result)"
        by (simp add: find_None_iff)
      moreover have "selectedPaper ?st = Some (hd ?ps)"
        using sel None ne by (cases ?ps) (simp_all add: pickSelected_def)
      ultimately show ?thesis using ne by auto
    next
      case (Some p)
      then have "p \<in> set ?ps" "Val (id_p p) = central_paper result"
        using find_hint by blast+
      moreover have "selectedPaper ?st = Some p"
        using sel Some by (simp add: pickSelected_def)
      ultimately show ?thesis by auto
    qed
  qed
  show "let st' = ?st in
        papers st' = ?ps
      \<and> connections st' = edges result
      \<and> yearRange st' = yearRange st
      \<and> loading st' = False
      \<and> hoveredIds st' = []
      \<and> (?ps = [] \<longrightarrow> selectedPaper st' = None)
      \<and> (?ps \<noteq> [] \<longrightarrow>
           (\<exists>p \<in> set ?ps. selectedPaper st' = Some p
              \<and> ((\<exists>q \<in> set ?ps. Val (id_p q) = central_paper result)
                    \<longrightarrow> Val (id_p p) = central_paper result)
              \<and> (\<not> (\<exists>q \<in> set ?ps. Val (id_p q) = central_paper result)
                    \<longrightarrow> p = hd ?ps)))"
    unfolding Let_def using basic empty nonempty by blast
qed

theorem handleSearch_replaces_graph_witness:
  "trim input_arxiv \<noteq> []
   \<and> hoveredIds state_dragged = [''b'']
   \<and> papers (handleSearch state_dragged input_arxiv (Inr result_ac)) = [paper_a, paper_c]
   \<and> connections (handleSearch state_dragged input_arxiv (Inr result_ac)) = []
   \<and> hoveredIds (handleSearch state_dragged input_arxiv (Inr result_ac)) = []
   \<and> yearRange (handleSearch state_dragged input_arxiv (Inr result_ac)) = (2010, 2020)
   \<and> selectedPaper (handleSearch state_dragged input_arxiv (Inr result_ac)) = Some paper_a"
proof -
  have nb: "trim input_arxiv \<noteq> []" by (simp add: trim_def isSpace_def input_arxiv_def)
  have r: "papers_res result_ac = [paper_a, paper_c]" "edges result_ac = []"
    "\<not> (\<exists>q \<in> set (papers_res result_ac). Val (id_p q) = central_paper result_ac)"
    by (simp_all add: result_ac_def)
  have y: "yearRange state_dragged = (2010, 2020)" "hoveredIds state_dragged = [''b'']"
    by (simp_all add: state_dragged_def)
  show ?thesis
    using handleSearch_replaces_graph [where input = input_arxiv and st = state_dragged
        and result = result_ac] nb r y
    by (auto simp: Let_def)
qed

text \<open>
  C4 as stated fails: with no central hint the first publication \<open>a\<close> is selected
  although \<open>c\<close> has the most citations, and the year range set before the search is
  kept, not put back to \<open>[1990, currentYear]\<close>.
\<close>

theorem handleSearch_counterexample:
  "map_option id_p (selectedPaper (handleSearch state_dragged input_arxiv (Inr result_ac))) = Some ''a''
   \<and> centralPaperId (papers (handleSearch state_dragged input_arxiv (Inr result_ac))) = Some ''c''
   \<and> yearRange (handleSearch state_dragged input_arxiv (Inr result_ac)) = (2010, 2020)
   \<and> yearRange (handleSearch state_dragged input_arxiv (Inr result_ac)) \<noteq> yearRange (App_init 2026)"
  by (simp add: handleSearch_def trim_def isSpace_def input_arxiv_def commit_def
      mountedStars_def pickSelected_def result_ac_def state_dragged_def App_init_def
      centralPaperId_def more_cited_def or0_def paper_a_def paper_c_def Let_def)

end
